theory Spec2Isabelle
  imports Main "HOL-Library.Word"
begin

unbundle bit_operations_syntax

section \<open>Trap handling of the JOS kernel (kern/trap.c)\<close>

text \<open>
  A shallow embedding of \<^verbatim>\<open>kern/trap.c\<close>: the exception-name catalog, the
  construction of the interrupt descriptor table, the trap-frame printer, the
  syscall bridge, the dispatcher, the page-fault handler and the top-level trap
  entry. Every function keeps the name it has in the C file.
\<close>

subsection \<open>Machine words and the constants of the headers\<close>

type_synonym u32 = "32 word"
type_synonym u16 = "16 word"

text \<open>An \<^verbatim>\<open>int32_t\<close> is kept as its 32 bits; \<open>sint\<close> reads its value.\<close>

type_synonym i32 = "32 word"

text \<open>
  Modelled from the spec: the header \<^verbatim>\<open>inc/trap.h\<close> with the vector numbers is
  not part of the sources. The numbers below are the ones the file itself fixes:
  \<^verbatim>\<open>trap_init\<close> pairs every \<^verbatim>\<open>T_*\<close> name with the entry stub \<^verbatim>\<open>trap_N\<close> of
  its vector, and the positions of the catalog \<^verbatim>\<open>excnames\<close> agree with them
  (position 3 is "Breakpoint", position 14 is "Page Fault").
\<close>

definition T_DIVIDE :: u32 where "T_DIVIDE = 0"
definition T_DEBUG :: u32 where "T_DEBUG = 1"
definition T_NMI :: u32 where "T_NMI = 2"
definition T_BRKPT :: u32 where "T_BRKPT = 3"
definition T_OFLOW :: u32 where "T_OFLOW = 4"
definition T_BOUND :: u32 where "T_BOUND = 5"
definition T_ILLOP :: u32 where "T_ILLOP = 6"
definition T_DEVICE :: u32 where "T_DEVICE = 7"
definition T_DBLFLT :: u32 where "T_DBLFLT = 8"
definition T_TSS :: u32 where "T_TSS = 10"
definition T_SEGNP :: u32 where "T_SEGNP = 11"
definition T_STACK :: u32 where "T_STACK = 12"
definition T_GPFLT :: u32 where "T_GPFLT = 13"
definition T_PGFLT :: u32 where "T_PGFLT = 14"
definition T_FPERR :: u32 where "T_FPERR = 16"
definition T_ALIGN :: u32 where "T_ALIGN = 17"
definition T_MCHK :: u32 where "T_MCHK = 18"
definition T_SIMDERR :: u32 where "T_SIMDERR = 19"
definition T_SYSCALL :: u32 where "T_SYSCALL = 48"

text \<open>
  Modelled from the spec: the headers \<^verbatim>\<open>inc/memlayout.h\<close> and \<^verbatim>\<open>inc/mmu.h\<close>
  are not part of the sources. \<^verbatim>\<open>GD_KT\<close> is the kernel code selector (a
  selector of privilege level 0), \<^verbatim>\<open>FL_IF\<close> and \<^verbatim>\<open>FL_DF\<close> are the
  interrupt-enable and the direction bit of the flags register, and
  \<^verbatim>\<open>STS_IG32\<close>, \<^verbatim>\<open>STS_TG32\<close> are the two gate types.
\<close>

definition GD_KT :: u16 where "GD_KT = 0x08"
definition FL_IF :: u32 where "FL_IF = 0x200"
definition FL_DF :: u32 where "FL_DF = 0x400"
definition STS_IG32 :: "4 word" where "STS_IG32 = 0xE"
definition STS_TG32 :: "4 word" where "STS_TG32 = 0xF"

subsection \<open>The saved trap frame and the environments\<close>

text \<open>
  The structs \<^verbatim>\<open>PushRegs\<close>, \<^verbatim>\<open>Trapframe\<close> and \<^verbatim>\<open>Env\<close> with the fields the file
  reads and writes. A struct assignment copies a whole record.
\<close>

record PushRegs =
  reg_edi :: u32
  reg_esi :: u32
  reg_ebp :: u32
  reg_oesp :: u32
  reg_ebx :: u32
  reg_edx :: u32
  reg_ecx :: u32
  reg_eax :: u32

record Trapframe =
  tf_regs :: PushRegs
  tf_es :: u16
  tf_ds :: u16
  tf_trapno :: u32
  tf_err :: u32
  tf_eip :: u32
  tf_cs :: u16
  tf_eflags :: u32
  tf_esp :: u32
  tf_ss :: u16

datatype env_status = ENV_FREE | ENV_DYING | ENV_RUNNABLE | ENV_RUNNING | ENV_NOT_RUNNABLE

record Env =
  env_tf :: Trapframe
  env_id :: u32
  env_status :: env_status

text \<open>
  A \<^verbatim>\<open>struct Trapframe *\<close> points either at the frame the entry stub pushed on
  the privileged stack, or at the \<^verbatim>\<open>env_tf\<close> slot of an environment of the
  \<^verbatim>\<open>envs\<close> array. \<^verbatim>\<open>curenv\<close> is an index into that array, or \<open>None\<close> for
  the null pointer.
\<close>

datatype tf_ptr = KStack | EnvTf nat

record machine =
  cpu_eflags :: u32
  cpu_cr2 :: u32
  kstack_tf :: Trapframe
  envs :: "nat \<Rightarrow> Env"
  curenv :: "nat option"

text \<open>
  What the file does to the outside is recorded in order: each call of
  \<^verbatim>\<open>cprintf\<close> with the text it formats, and each call of a collaborator.
  \<^verbatim>\<open>last_tf\<close> is the file's static variable; the collaborators cannot reach it.
\<close>

datatype event =
  Cprintf string
  | Monitor tf_ptr
  | Syscall u32 u32 u32 u32 u32 u32
  | EnvDestroy "nat option"

record kstate =
  mach :: machine
  last_tf :: "tf_ptr option"
  trace :: "event list"

text \<open>
  Modelled from the spec: \<^verbatim>\<open>syscall\<close>, \<^verbatim>\<open>monitor\<close> and \<^verbatim>\<open>env_destroy\<close> are
  defined in other files of the kernel, which are not part of the sources. After
  the external interfaces of the spec, \<open>invoke(number, a1..a5) -> i32\<close>,
  \<open>enter(frame) -> resumable\<close> and \<open>terminate(ProcessHandle)\<close> return to
  their caller; each is a parameter that may change the machine in any way.
  \<open>ext_addr\<close> is the address of a frame, which \<^verbatim>\<open>%p\<close> prints.
\<close>

record extern =
  ext_syscall :: "u32 \<Rightarrow> u32 \<Rightarrow> u32 \<Rightarrow> u32 \<Rightarrow> u32 \<Rightarrow> u32 \<Rightarrow> machine \<Rightarrow> i32 \<times> machine"
  ext_monitor :: "tf_ptr \<Rightarrow> machine \<Rightarrow> machine"
  ext_env_destroy :: "nat option \<Rightarrow> machine \<Rightarrow> machine"
  ext_addr :: "tf_ptr \<Rightarrow> u32"

text \<open>
  \<^verbatim>\<open>panic\<close> and a failed \<^verbatim>\<open>assert\<close> never return; so does \<^verbatim>\<open>env_run\<close>. A
  function that can panic returns \<open>Inl\<close> with the reason and the state reached.
  \<open>NullDeref\<close> is the read of a field through a null \<^verbatim>\<open>curenv\<close>.
\<close>

datatype halt = Panic string | NullDeref

datatype outcome = Halted halt kstate | EnvRun nat kstate

fun final_state :: "outcome \<Rightarrow> kstate" where
  "final_state (Halted h s) = s"
| "final_state (EnvRun e s) = s"

fun resumed :: "outcome \<Rightarrow> nat option" where
  "resumed (Halted h s) = None"
| "resumed (EnvRun e s) = Some e"

fun tf_at :: "machine \<Rightarrow> tf_ptr \<Rightarrow> Trapframe" where
  "tf_at m KStack = kstack_tf m"
| "tf_at m (EnvTf e) = env_tf (envs m e)"

fun set_tf :: "tf_ptr \<Rightarrow> Trapframe \<Rightarrow> machine \<Rightarrow> machine" where
  "set_tf KStack f m = m\<lparr>kstack_tf := f\<rparr>"
| "set_tf (EnvTf e) f m = m\<lparr>envs := (envs m)(e := (envs m e)\<lparr>env_tf := f\<rparr>)\<rparr>"

text \<open>
  The three instructions the file uses: \<^verbatim>\<open>cld\<close> clears the direction bit of
  the flags register, \<^verbatim>\<open>read_eflags\<close> and \<^verbatim>\<open>rcr2\<close> read the flags and the
  fault-address register.
\<close>

definition cld :: "machine \<Rightarrow> machine" where
  "cld m = m\<lparr>cpu_eflags := cpu_eflags m AND NOT FL_DF\<rparr>"

definition read_eflags :: "machine \<Rightarrow> u32" where
  "read_eflags m = cpu_eflags m"

definition rcr2 :: "machine \<Rightarrow> u32" where
  "rcr2 m = cpu_cr2 m"

subsection \<open>Formatted output\<close>

text \<open>
  \<^verbatim>\<open>%08x\<close> of a 32-bit value is eight hexadecimal digits, \<^verbatim>\<open>%04x\<close> of a
  16-bit value is four, and \<^verbatim>\<open>%p\<close> is \<^verbatim>\<open>0x\<close> and the digits of the address
  without padding.
\<close>

definition hexdigit :: "nat \<Rightarrow> char" where
  "hexdigit d = ''0123456789abcdef'' ! d"

fun hexpad :: "nat \<Rightarrow> nat \<Rightarrow> string" where
  "hexpad 0 v = []"
| "hexpad (Suc k) v = hexpad k (v div 16) @ [hexdigit (v mod 16)]"

definition hex8 :: "u32 \<Rightarrow> string" where
  "hex8 w = hexpad 8 (unat w)"

definition hex4 :: "u16 \<Rightarrow> string" where
  "hex4 w = hexpad 4 (unat w)"

definition fmt_ptr :: "u32 \<Rightarrow> string" where
  "fmt_ptr a =
     (case dropWhile (\<lambda>c. c = CHR ''0'') (hex8 a) of
        [] \<Rightarrow> ''0x0''
      | ds \<Rightarrow> ''0x'' @ ds)"

text \<open>
  The two format strings of \<^verbatim>\<open>page_fault_handler\<close> and \<^verbatim>\<open>trap\<close>:
  \<^verbatim>\<open>"[%08x] user fault va %08x ip %08x\n"\<close> and
  \<^verbatim>\<open>"Incoming TRAP frame at %p\n"\<close>.
\<close>

definition fmt_user_fault :: "u32 \<Rightarrow> u32 \<Rightarrow> u32 \<Rightarrow> string" where
  "fmt_user_fault envid va ip =
     ''['' @ hex8 envid @ ''] user fault va '' @ hex8 va @ '' ip '' @ hex8 ip @ ''\<newline>''"

definition fmt_incoming :: "u32 \<Rightarrow> string" where
  "fmt_incoming a = ''Incoming TRAP frame at '' @ fmt_ptr a @ ''\<newline>''"

definition cprintf :: "string \<Rightarrow> kstate \<Rightarrow> kstate" where
  "cprintf str s = s\<lparr>trace := trace s @ [Cprintf str]\<rparr>"

fun printed :: "event list \<Rightarrow> string list" where
  "printed [] = []"
| "printed (Cprintf str # es) = str # printed es"
| "printed (e # es) = printed es"

subsection \<open>The exception catalog\<close>

definition excnames :: "string list" where
  "excnames =
    [''Divide error'',
     ''Debug'',
     ''Non-Maskable Interrupt'',
     ''Breakpoint'',
     ''Overflow'',
     ''BOUND Range Exceeded'',
     ''Invalid Opcode'',
     ''Device Not Available'',
     ''Double Fault'',
     ''Coprocessor Segment Overrun'',
     ''Invalid TSS'',
     ''Segment Not Present'',
     ''Stack Fault'',
     ''General Protection'',
     ''Page Fault'',
     ''(unknown trap)'',
     ''x87 FPU Floating-Point Error'',
     ''Alignment Check'',
     ''Machine-Check'',
     ''SIMD Floating-Point Exception'']"

text \<open>
  \<^verbatim>\<open>trapname(int trapno)\<close>. The argument is the bit pattern of the \<^verbatim>\<open>int\<close>;
  \<^verbatim>\<open>ARRAY_SIZE\<close> is a \<^verbatim>\<open>size_t\<close>, so the comparison is unsigned and a negative
  number is not below the size of the table.
\<close>

definition trapname :: "u32 \<Rightarrow> string" where
  "trapname trapno =
     (if unat trapno < length excnames then excnames ! unat trapno
      else if trapno = T_SYSCALL then ''System call''
      else ''(unknown trap)'')"

subsection \<open>The interrupt descriptor table\<close>

text \<open>The entry stubs the file declares \<^verbatim>\<open>extern\<close>: one opaque label each.\<close>

datatype entry_stub =
  trap_0 | trap_1 | trap_2 | trap_3 | trap_4 | trap_5 | trap_6 | trap_7 | trap_8
  | trap_10 | trap_11 | trap_12 | trap_13 | trap_14
  | trap_16 | trap_17 | trap_18 | trap_19
  | trap_48

text \<open>
  Modelled from the spec: \<^verbatim>\<open>struct Gatedesc\<close> and the macro \<^verbatim>\<open>SETGATE\<close> of
  \<^verbatim>\<open>inc/mmu.h\<close> are not part of the sources. A gate has the attributes the
  spec gives it (target entry stub, segment selector of the handler code, required
  privilege level), its gate type and its present bit; \<^verbatim>\<open>SETGATE\<close> fills
  them from its arguments and marks the gate present. A gate of the table as
  declared, \<^verbatim>\<open>{ { 0 } }\<close>, has every field zero.
\<close>

record Gatedesc =
  gd_off :: "entry_stub option"
  gd_sel :: u16
  gd_type :: "4 word"
  gd_dpl :: "2 word"
  gd_p :: "1 word"

definition gate_zero :: Gatedesc where
  "gate_zero = \<lparr>gd_off = None, gd_sel = 0, gd_type = 0, gd_dpl = 0, gd_p = 0\<rparr>"

definition SETGATE :: "bool \<Rightarrow> u16 \<Rightarrow> entry_stub \<Rightarrow> 2 word \<Rightarrow> Gatedesc" where
  "SETGATE istrap sel off dpl =
     \<lparr>gd_off = Some off, gd_sel = sel,
      gd_type = (if istrap then STS_TG32 else STS_IG32),
      gd_dpl = dpl, gd_p = 1\<rparr>"

definition idt_initial :: "Gatedesc list" where
  "idt_initial = replicate 256 gate_zero"

text \<open>
  \<^verbatim>\<open>trap_init\<close>, as a function of the table \<^verbatim>\<open>idt\<close>. Every index is a
  constant below 256. The call of \<^verbatim>\<open>trap_init_percpu\<close> that ends it writes
  the task state, one slot of the \<^verbatim>\<open>gdt\<close> and two registers of the processor;
  it passes the address of the table to \<^verbatim>\<open>lidt\<close> and writes no gate.
\<close>

definition trap_init :: "Gatedesc list \<Rightarrow> Gatedesc list" where
  "trap_init idt =
    (let idt = idt[unat T_DIVIDE := SETGATE False GD_KT trap_0 0];
         idt = idt[unat T_DEBUG := SETGATE False GD_KT trap_1 0];
         idt = idt[unat T_NMI := SETGATE False GD_KT trap_2 0];
         idt = idt[unat T_BRKPT := SETGATE False GD_KT trap_3 3];
         idt = idt[unat T_OFLOW := SETGATE False GD_KT trap_4 0];
         idt = idt[unat T_BOUND := SETGATE False GD_KT trap_5 0];
         idt = idt[unat T_ILLOP := SETGATE False GD_KT trap_6 0];
         idt = idt[unat T_DEVICE := SETGATE False GD_KT trap_7 0];
         idt = idt[unat T_DBLFLT := SETGATE False GD_KT trap_8 0];
         idt = idt[unat T_TSS := SETGATE False GD_KT trap_10 0];
         idt = idt[unat T_SEGNP := SETGATE False GD_KT trap_11 0];
         idt = idt[unat T_STACK := SETGATE False GD_KT trap_12 0];
         idt = idt[unat T_GPFLT := SETGATE False GD_KT trap_13 0];
         idt = idt[unat T_PGFLT := SETGATE False GD_KT trap_14 0];
         idt = idt[unat T_FPERR := SETGATE False GD_KT trap_16 0];
         idt = idt[unat T_ALIGN := SETGATE False GD_KT trap_17 0];
         idt = idt[unat T_MCHK := SETGATE False GD_KT trap_18 0];
         idt = idt[unat T_SIMDERR := SETGATE False GD_KT trap_19 0];
         idt = idt[unat T_SYSCALL := SETGATE False GD_KT trap_48 3]
     in idt)"

text \<open>The vectors whose gate is present, in increasing order.\<close>

definition installed :: "Gatedesc list \<Rightarrow> nat \<Rightarrow> bool" where
  "installed idt n = (n < length idt \<and> gd_p (idt ! n) = 1)"

definition installed_vectors :: "Gatedesc list \<Rightarrow> nat list" where
  "installed_vectors idt = filter (installed idt) [0..<length idt]"

text \<open>
  The vectors of the fixed namespace: the numbers \<^verbatim>\<open>trap_init\<close> names, in the
  order of its statements.
\<close>

definition trap_vectors :: "u32 list" where
  "trap_vectors =
    [T_DIVIDE, T_DEBUG, T_NMI, T_BRKPT, T_OFLOW, T_BOUND, T_ILLOP, T_DEVICE,
     T_DBLFLT, T_TSS, T_SEGNP, T_STACK, T_GPFLT, T_PGFLT, T_FPERR, T_ALIGN,
     T_MCHK, T_SIMDERR, T_SYSCALL]"

text \<open>The stub \<^verbatim>\<open>trap_N\<close> of vector \<open>N\<close>.\<close>

definition stub_of :: "nat \<Rightarrow> entry_stub option" where
  "stub_of n =
    map_of
      [(0, trap_0), (1, trap_1), (2, trap_2), (3, trap_3), (4, trap_4),
       (5, trap_5), (6, trap_6), (7, trap_7), (8, trap_8), (10, trap_10),
       (11, trap_11), (12, trap_12), (13, trap_13), (14, trap_14),
       (16, trap_16), (17, trap_17), (18, trap_18), (19, trap_19),
       (48, trap_48)] n"

subsection \<open>The trap-frame printer\<close>

definition print_regs :: "PushRegs \<Rightarrow> kstate \<Rightarrow> kstate" where
  "print_regs regs s =
    (let s = cprintf (''  edi  0x'' @ hex8 (reg_edi regs) @ ''\<newline>'') s;
         s = cprintf (''  esi  0x'' @ hex8 (reg_esi regs) @ ''\<newline>'') s;
         s = cprintf (''  ebp  0x'' @ hex8 (reg_ebp regs) @ ''\<newline>'') s;
         s = cprintf (''  oesp 0x'' @ hex8 (reg_oesp regs) @ ''\<newline>'') s;
         s = cprintf (''  ebx  0x'' @ hex8 (reg_ebx regs) @ ''\<newline>'') s;
         s = cprintf (''  edx  0x'' @ hex8 (reg_edx regs) @ ''\<newline>'') s;
         s = cprintf (''  ecx  0x'' @ hex8 (reg_ecx regs) @ ''\<newline>'') s;
         s = cprintf (''  eax  0x'' @ hex8 (reg_eax regs) @ ''\<newline>'') s
     in s)"

definition print_trapframe :: "extern \<Rightarrow> tf_ptr \<Rightarrow> kstate \<Rightarrow> kstate" where
  "print_trapframe x tf s =
    (let f = tf_at (mach s) tf;
         s = cprintf (''TRAP frame at '' @ fmt_ptr (ext_addr x tf) @ ''\<newline>'') s;
         s = print_regs (tf_regs f) s;
         s = cprintf (''  es   0x----'' @ hex4 (tf_es f) @ ''\<newline>'') s;
         s = cprintf (''  ds   0x----'' @ hex4 (tf_ds f) @ ''\<newline>'') s;
         s = cprintf (''  trap 0x'' @ hex8 (tf_trapno f) @ '' '' @ trapname (tf_trapno f)
                        @ ''\<newline>'') s;
         s = (if Some tf = last_tf s \<and> tf_trapno f = T_PGFLT
              then cprintf (''  cr2  0x'' @ hex8 (rcr2 (mach s)) @ ''\<newline>'') s
              else s);
         s = cprintf (''  err  0x'' @ hex8 (tf_err f)) s;
         s = (if tf_trapno f = T_PGFLT
              then cprintf ('' ['' @ (if tf_err f AND 4 \<noteq> 0 then ''user'' else ''kernel'')
                             @ '', '' @ (if tf_err f AND 2 \<noteq> 0 then ''write'' else ''read'')
                             @ '', '' @ (if tf_err f AND 1 \<noteq> 0 then ''protection''
                                         else ''not-present'')
                             @ '']\<newline>'') s
              else cprintf ''\<newline>'' s);
         s = cprintf (''  eip  0x'' @ hex8 (tf_eip f) @ ''\<newline>'') s;
         s = cprintf (''  cs   0x----'' @ hex4 (tf_cs f) @ ''\<newline>'') s;
         s = cprintf (''  flag 0x'' @ hex8 (tf_eflags f) @ ''\<newline>'') s;
         s = (if tf_cs f AND 3 \<noteq> 0
              then cprintf (''  ss   0x----'' @ hex4 (tf_ss f) @ ''\<newline>'')
                     (cprintf (''  esp  0x'' @ hex8 (tf_esp f) @ ''\<newline>'') s)
              else s)
     in s)"

subsection \<open>Calls of the collaborators\<close>

definition monitor :: "extern \<Rightarrow> tf_ptr \<Rightarrow> kstate \<Rightarrow> kstate" where
  "monitor x tf s =
     s\<lparr>mach := ext_monitor x tf (mach s), trace := trace s @ [Monitor tf]\<rparr>"

definition env_destroy :: "extern \<Rightarrow> nat option \<Rightarrow> kstate \<Rightarrow> kstate" where
  "env_destroy x e s =
     s\<lparr>mach := ext_env_destroy x e (mach s), trace := trace s @ [EnvDestroy e]\<rparr>"

subsection \<open>The syscall bridge\<close>

text \<open>
  The six reads come first, then the call, then the store of the result through
  \<^verbatim>\<open>tf\<close> into the frame as the call left it.
\<close>

definition syscall_handler :: "extern \<Rightarrow> tf_ptr \<Rightarrow> kstate \<Rightarrow> kstate" where
  "syscall_handler x tf s =
    (let num = reg_eax (tf_regs (tf_at (mach s) tf));
         a1 = reg_edx (tf_regs (tf_at (mach s) tf));
         a2 = reg_ecx (tf_regs (tf_at (mach s) tf));
         a3 = reg_ebx (tf_regs (tf_at (mach s) tf));
         a4 = reg_edi (tf_regs (tf_at (mach s) tf));
         a5 = reg_esi (tf_regs (tf_at (mach s) tf));
         (sys_ret, m) = ext_syscall x num a1 a2 a3 a4 a5 (mach s);
         f = tf_at m tf
     in s\<lparr>mach := set_tf tf (f\<lparr>tf_regs := (tf_regs f)\<lparr>reg_eax := sys_ret\<rparr>\<rparr>) m,
          trace := trace s @ [Syscall num a1 a2 a3 a4 a5]\<rparr>)"

subsection \<open>The page-fault handler\<close>

definition page_fault_handler :: "extern \<Rightarrow> tf_ptr \<Rightarrow> kstate \<Rightarrow> (halt \<times> kstate) + kstate" where
  "page_fault_handler x tf s =
    (let fault_va = rcr2 (mach s) in
     if tf_cs (tf_at (mach s) tf) AND 0x3 = 0 then Inl (Panic ''Kernel page fault'', s)
     else
       (case curenv (mach s) of
          None \<Rightarrow> Inl (NullDeref, s)
        | Some e \<Rightarrow>
            (let s = cprintf (fmt_user_fault (env_id (envs (mach s) e)) fault_va
                                (tf_eip (tf_at (mach s) tf))) s;
                 s = print_trapframe x tf s
             in Inr (env_destroy x (curenv (mach s)) s))))"

subsection \<open>The dispatcher\<close>

definition trap_dispatch :: "extern \<Rightarrow> tf_ptr \<Rightarrow> kstate \<Rightarrow> (halt \<times> kstate) + kstate" where
  "trap_dispatch x tf s =
    (if tf_trapno (tf_at (mach s) tf) = T_BRKPT then Inr (monitor x tf s)
     else if tf_trapno (tf_at (mach s) tf) = T_PGFLT then page_fault_handler x tf s
     else if tf_trapno (tf_at (mach s) tf) = T_SYSCALL then Inr (syscall_handler x tf s)
     else
       (let s = print_trapframe x tf s in
        if tf_cs (tf_at (mach s) tf) = GD_KT
        then Inl (Panic ''unhandled trap in kernel'', s)
        else Inr (env_destroy x (curenv (mach s)) s)))"

subsection \<open>The top-level trap entry\<close>

text \<open>
  \<^verbatim>\<open>trap\<close> up to the assignment of \<^verbatim>\<open>last_tf\<close>: the \<^verbatim>\<open>cld\<close> instruction,
  the assertion on the interrupt flag of the processor, the first line of output,
  the copy of a frame that comes from user mode, and the record of the frame in
  use. The result is the pointer \<^verbatim>\<open>tf\<close> as it is from there on.
\<close>

definition trap_entry :: "extern \<Rightarrow> tf_ptr \<Rightarrow> kstate \<Rightarrow> (halt \<times> kstate) + (tf_ptr \<times> kstate)" where
  "trap_entry x tf s =
    (let s = s\<lparr>mach := cld (mach s)\<rparr> in
     if read_eflags (mach s) AND FL_IF \<noteq> 0
     then Inl (Panic ''assertion failed: !(read_eflags() & FL_IF)'', s)
     else
       (let s = cprintf (fmt_incoming (ext_addr x tf)) s in
        if tf_cs (tf_at (mach s) tf) AND 3 = 3
        then
          (case curenv (mach s) of
             None \<Rightarrow> Inl (Panic ''assertion failed: curenv'', s)
           | Some e \<Rightarrow>
               (let s = s\<lparr>mach := set_tf (EnvTf e) (tf_at (mach s) tf) (mach s)\<rparr>;
                    tf = EnvTf e
                in Inr (tf, s\<lparr>last_tf := Some tf\<rparr>)))
        else Inr (tf, s\<lparr>last_tf := Some tf\<rparr>)))"

text \<open>
  The rest of \<^verbatim>\<open>trap\<close>: what follows the return of the dispatcher, the
  assertion on \<^verbatim>\<open>curenv\<close> and the call of \<^verbatim>\<open>env_run\<close>, which does not return.
\<close>

definition trap_resume :: "kstate \<Rightarrow> outcome" where
  "trap_resume s =
    (case curenv (mach s) of
       None \<Rightarrow>
         Halted (Panic ''assertion failed: curenv && curenv->env_status == ENV_RUNNING'') s
     | Some e \<Rightarrow>
         if env_status (envs (mach s) e) = ENV_RUNNING then EnvRun e s
         else Halted (Panic ''assertion failed: curenv && curenv->env_status == ENV_RUNNING'') s)"

definition trap :: "extern \<Rightarrow> tf_ptr \<Rightarrow> kstate \<Rightarrow> outcome" where
  "trap x tf s =
    (case trap_entry x tf s of
       Inl (h, s) \<Rightarrow> Halted h s
     | Inr (tf, s) \<Rightarrow>
         (case trap_dispatch x tf s of
            Inl (h, s) \<Rightarrow> Halted h s
          | Inr s \<Rightarrow> trap_resume s))"

subsection \<open>Concrete collaborators and states\<close>

text \<open>
  A syscall implementation that returns the sum of its first two arguments and
  leaves the machine alone, a debugger that returns at once, and a termination
  that marks the environment free and makes environment 0 the current one.
\<close>

definition ext_sample :: extern where
  "ext_sample =
    \<lparr>ext_syscall = (\<lambda>num a1 a2 a3 a4 a5 m. (a1 + a2, m)),
     ext_monitor = (\<lambda>tf m. m),
     ext_env_destroy = (\<lambda>e m.
        (case e of None \<Rightarrow> m
         | Some i \<Rightarrow> m\<lparr>envs := (envs m)(i := (envs m i)\<lparr>env_status := ENV_FREE\<rparr>),
                        curenv := Some 0\<rparr>)),
     ext_addr = (\<lambda>tf. case tf of KStack \<Rightarrow> 0xEFFFFFBC | EnvTf i \<Rightarrow> 0xF01C0000)\<rparr>"

definition regs_sample :: PushRegs where
  "regs_sample =
    \<lparr>reg_edi = 0, reg_esi = 0, reg_ebp = 0xEEBFDFD0, reg_oesp = 0xEFFFFFDC,
     reg_ebx = 0, reg_edx = 10, reg_ecx = 20, reg_eax = 5\<rparr>"

definition frame_sample :: "u32 \<Rightarrow> u16 \<Rightarrow> Trapframe" where
  "frame_sample trapno cs =
    \<lparr>tf_regs = regs_sample, tf_es = 0x23, tf_ds = 0x23, tf_trapno = trapno,
     tf_err = 6, tf_eip = 0x00801234, tf_cs = cs, tf_eflags = 0x46,
     tf_esp = 0xEEBFDFB8, tf_ss = 0x23\<rparr>"

definition frame_zero :: Trapframe where
  "frame_zero =
    \<lparr>tf_regs = \<lparr>reg_edi = 0, reg_esi = 0, reg_ebp = 0, reg_oesp = 0,
                reg_ebx = 0, reg_edx = 0, reg_ecx = 0, reg_eax = 0\<rparr>,
     tf_es = 0, tf_ds = 0, tf_trapno = 0, tf_err = 0, tf_eip = 0, tf_cs = 0,
     tf_eflags = 0, tf_esp = 0, tf_ss = 0\<rparr>"

text \<open>
  A machine with interrupts off, the fault address \<open>0xDEADBEEF\<close>, the given
  frame on the privileged stack, and environment 1 running as the current one.
\<close>

definition machine_sample :: "Trapframe \<Rightarrow> machine" where
  "machine_sample f =
    \<lparr>cpu_eflags = 0x2, cpu_cr2 = 0xDEADBEEF, kstack_tf = f,
     envs = (\<lambda>i. \<lparr>env_tf = frame_zero, env_id = 0x1000 + word_of_nat i,
                   env_status = (if i \<le> 1 then ENV_RUNNING else ENV_FREE)\<rparr>),
     curenv = Some 1\<rparr>"

definition state_sample :: "Trapframe \<Rightarrow> kstate" where
  "state_sample f = \<lparr>mach = machine_sample f, last_tf = None, trace = []\<rparr>"

text \<open>The same state with the interrupt flag of the processor set.\<close>

definition state_irq :: "Trapframe \<Rightarrow> kstate" where
  "state_irq f =
     \<lparr>mach = (machine_sample f)\<lparr>cpu_eflags := 0x202\<rparr>, last_tf = None, trace = []\<rparr>"

subsection \<open>Notions used in the statements\<close>

text \<open>The lines one call of \<^verbatim>\<open>print_trapframe\<close> adds to the output.\<close>

definition frame_lines :: "extern \<Rightarrow> tf_ptr \<Rightarrow> kstate \<Rightarrow> string list" where
  "frame_lines x tf s = printed (drop (length (trace s)) (trace (print_trapframe x tf s)))"

text \<open>The line of \<^verbatim>\<open>print_trapframe\<close> that shows the fault-address register.\<close>

definition cr2_line :: "u32 \<Rightarrow> string" where
  "cr2_line v = ''  cr2  0x'' @ hex8 v @ ''\<newline>''"


section \<open>Basic facts\<close>

lemmas T_defs = T_DIVIDE_def T_DEBUG_def T_NMI_def T_BRKPT_def T_OFLOW_def
  T_BOUND_def T_ILLOP_def T_DEVICE_def T_DBLFLT_def T_TSS_def T_SEGNP_def
  T_STACK_def T_GPFLT_def T_PGFLT_def T_FPERR_def T_ALIGN_def T_MCHK_def
  T_SIMDERR_def T_SYSCALL_def

lemma mach_cprintf [simp]: "mach (cprintf l s) = mach s"
  by (simp add: cprintf_def)

lemma last_tf_cprintf [simp]: "last_tf (cprintf l s) = last_tf s"
  by (simp add: cprintf_def)

lemma trace_cprintf [simp]: "trace (cprintf l s) = trace s @ [Cprintf l]"
  by (simp add: cprintf_def)

lemma mach_print_regs [simp]: "mach (print_regs r s) = mach s"
  by (simp add: print_regs_def)

lemma last_tf_print_regs [simp]: "last_tf (print_regs r s) = last_tf s"
  by (simp add: print_regs_def)

lemma mach_print_trapframe [simp]: "mach (print_trapframe x tf s) = mach s"
  by (simp add: print_trapframe_def Let_def)

lemma last_tf_print_trapframe [simp]: "last_tf (print_trapframe x tf s) = last_tf s"
  by (simp add: print_trapframe_def Let_def)

lemma printed_append [simp]: "printed (es @ es') = printed es @ printed es'"
  by (induction es rule: printed.induct) simp_all

lemma printed_map_Cprintf [simp]: "printed (map Cprintf ls) = ls"
  by (induction ls) simp_all

lemma trace_print_regs:
  "trace (print_regs r s) = trace s @ map Cprintf (printed (drop (length (trace s)) (trace (print_regs r s))))"
  by (simp add: print_regs_def)

lemma trace_print_trapframe:
  "trace (print_trapframe x tf s) = trace s @ map Cprintf (frame_lines x tf s)"
  by (simp add: frame_lines_def print_trapframe_def print_regs_def Let_def)

lemma cld_keeps_IF [simp]: "(e AND NOT FL_DF) AND FL_IF = e AND FL_IF"
proof -
  have "NOT FL_DF AND FL_IF = FL_IF"
    by (simp add: FL_DF_def FL_IF_def)
  then show ?thesis
    by (simp add: and.assoc)
qed

lemma cpu_eflags_cld [simp]: "cpu_eflags (cld m) = cpu_eflags m AND NOT FL_DF"
  by (simp add: cld_def)

lemma cld_fields [simp]:
  "cpu_cr2 (cld m) = cpu_cr2 m" "kstack_tf (cld m) = kstack_tf m"
  "envs (cld m) = envs m" "curenv (cld m) = curenv m"
  by (simp_all add: cld_def)

lemma tf_at_cld [simp]: "tf_at (cld m) tf = tf_at m tf"
  by (cases tf) simp_all

lemma GD_KT_kernel: "GD_KT AND 3 = 0"
  by (simp add: GD_KT_def)

lemma mach_env_destroy [simp]: "mach (env_destroy x e s) = ext_env_destroy x e (mach s)"
  by (simp add: env_destroy_def)

lemma trace_env_destroy [simp]: "trace (env_destroy x e s) = trace s @ [EnvDestroy e]"
  by (simp add: env_destroy_def)

lemma last_tf_env_destroy [simp]: "last_tf (env_destroy x e s) = last_tf s"
  by (simp add: env_destroy_def)

lemma tf_at_set_tf_same [simp]: "tf_at (set_tf p f m) p = f"
  by (cases p) simp_all

lemma tf_at_set_tf_other: "q \<noteq> p \<Longrightarrow> tf_at (set_tf p f m) q = tf_at m q"
  by (cases p; cases q) simp_all

lemma set_tf_fields [simp]:
  "cpu_eflags (set_tf p f m) = cpu_eflags m" "cpu_cr2 (set_tf p f m) = cpu_cr2 m"
  "curenv (set_tf p f m) = curenv m"
  by (cases p; simp)+

lemma set_tf_env_fields [simp]:
  "env_id (envs (set_tf p f m) i) = env_id (envs m i)"
  "env_status (envs (set_tf p f m) i) = env_status (envs m i)"
  by (cases p; simp)+

lemma last_tf_syscall_handler [simp]: "last_tf (syscall_handler x tf s) = last_tf s"
  by (simp add: syscall_handler_def Let_def split: prod.split)

lemma last_tf_monitor [simp]: "last_tf (monitor x tf s) = last_tf s"
  by (simp add: monitor_def)

lemma final_state_trap_resume [simp]: "final_state (trap_resume s) = s"
  by (simp add: trap_resume_def split: option.split)

subsection \<open>Evaluation of the formats\<close>

lemma hexpad_8:
  "hexpad 8 v =
     [hexdigit (v div 268435456 mod 16), hexdigit (v div 16777216 mod 16),
      hexdigit (v div 1048576 mod 16), hexdigit (v div 65536 mod 16),
      hexdigit (v div 4096 mod 16), hexdigit (v div 256 mod 16),
      hexdigit (v div 16 mod 16), hexdigit (v mod 16)]"
proof -
  have e: "(8::nat) = Suc (Suc (Suc (Suc (Suc (Suc (Suc (Suc 0)))))))"
    by simp
  show ?thesis
    unfolding e hexpad.simps by (simp add: div_mult2_eq [symmetric])
qed

lemma hexpad_4:
  "hexpad 4 v =
     [hexdigit (v div 4096 mod 16), hexdigit (v div 256 mod 16),
      hexdigit (v div 16 mod 16), hexdigit (v mod 16)]"
proof -
  have e: "(4::nat) = Suc (Suc (Suc (Suc 0)))"
    by simp
  show ?thesis
    unfolding e hexpad.simps by (simp add: div_mult2_eq [symmetric])
qed

lemmas hex_eval = hex8_def hex4_def hexpad_8 hexpad_4 hexdigit_def fmt_ptr_def

lemma fmt_user_fault_sample:
  "fmt_user_fault 0x1001 0xDEADBEEF 0x00801234 =
     ''[00001001] user fault va deadbeef ip 00801234\<newline>''"
  by (simp add: fmt_user_fault_def hex_eval)

lemma fmt_incoming_sample:
  "fmt_incoming 0xEFFFFFBC = ''Incoming TRAP frame at 0xefffffbc\<newline>''"
  by (simp add: fmt_incoming_def hex_eval)

subsection \<open>The sample states\<close>

lemma sample_machine [simp]:
  "cpu_eflags (mach (state_sample f)) = 2"
  "cpu_cr2 (mach (state_sample f)) = 0xDEADBEEF"
  "kstack_tf (mach (state_sample f)) = f"
  "curenv (mach (state_sample f)) = Some 1"
  "trace (state_sample f) = []"
  "last_tf (state_sample f) = None"
  by (simp_all add: state_sample_def machine_sample_def)

lemma sample_envs [simp]:
  "env_status (envs (mach (state_sample f)) 0) = ENV_RUNNING"
  "env_status (envs (mach (state_sample f)) 1) = ENV_RUNNING"
  "env_id (envs (mach (state_sample f)) 1) = 0x1001"
  "env_status (envs (mach (state_sample f)) (Suc 0)) = ENV_RUNNING"
  "env_id (envs (mach (state_sample f)) (Suc 0)) = 0x1001"
  by (simp_all add: state_sample_def machine_sample_def)

lemma sample_irq [simp]:
  "cpu_eflags (mach (state_irq f)) = 0x202"
  "kstack_tf (mach (state_irq f)) = f"
  by (simp_all add: state_irq_def machine_sample_def)

lemma sample_frame [simp]:
  "tf_trapno (frame_sample n c) = n" "tf_cs (frame_sample n c) = c"
  "tf_eip (frame_sample n c) = 0x00801234" "tf_regs (frame_sample n c) = regs_sample"
  by (simp_all add: frame_sample_def)

lemma sample_frame_fields [simp]:
  "tf_es (frame_sample n c) = 0x23" "tf_ds (frame_sample n c) = 0x23"
  "tf_err (frame_sample n c) = 6" "tf_eflags (frame_sample n c) = 0x46"
  "tf_esp (frame_sample n c) = 0xEEBFDFB8" "tf_ss (frame_sample n c) = 0x23"
  by (simp_all add: frame_sample_def)

lemma sample_flags [simp]: "(2 :: u32) AND FL_IF = 0" "(0x202 :: u32) AND FL_IF \<noteq> 0"
  by (simp_all add: FL_IF_def)

lemma sample_ext [simp]:
  "ext_monitor ext_sample tf m = m"
  "ext_syscall ext_sample num a1 a2 a3 a4 a5 m = (a1 + a2, m)"
  "ext_env_destroy ext_sample None m = m"
  "ext_env_destroy ext_sample (Some i) m =
     m\<lparr>envs := (envs m)(i := (envs m i)\<lparr>env_status := ENV_FREE\<rparr>), curenv := Some 0\<rparr>"
  "ext_addr ext_sample KStack = 0xEFFFFFBC"
  by (simp_all add: ext_sample_def)


subsection \<open>The entry of the trap handler\<close>

lemma trap_entry_user:
  assumes "cpu_eflags (mach s) AND FL_IF = 0"
    and "tf_cs (tf_at (mach s) tf) AND 3 = 3"
    and "curenv (mach s) = Some e"
  shows "trap_entry x tf s =
    Inr (EnvTf e,
         (cprintf (fmt_incoming (ext_addr x tf)) s)
           \<lparr>mach := set_tf (EnvTf e) (tf_at (mach s) tf) (cld (mach s)),
            last_tf := Some (EnvTf e)\<rparr>)"
  using assms by (simp add: trap_entry_def Let_def read_eflags_def cprintf_def)

lemma trap_entry_kernel:
  assumes "cpu_eflags (mach s) AND FL_IF = 0"
    and "tf_cs (tf_at (mach s) tf) AND 3 \<noteq> 3"
  shows "trap_entry x tf s =
    Inr (tf,
         (cprintf (fmt_incoming (ext_addr x tf)) s)
           \<lparr>mach := cld (mach s), last_tf := Some tf\<rparr>)"
  using assms by (simp add: trap_entry_def Let_def read_eflags_def cprintf_def)

lemma trap_entry_assert:
  assumes "cpu_eflags (mach s) AND FL_IF \<noteq> 0"
  shows "trap_entry x tf s =
    Inl (Panic ''assertion failed: !(read_eflags() & FL_IF)'', s\<lparr>mach := cld (mach s)\<rparr>)"
  using assms by (simp add: trap_entry_def Let_def read_eflags_def)

lemma resumed_None: "(\<forall>e s'. out \<noteq> EnvRun e s') \<Longrightarrow> resumed out = None"
  by (cases out) simp_all

lemma trap_kernel_page_fault:
  assumes "tf_cs (tf_at (mach s) tf) AND 3 = 0"
    and "tf_trapno (tf_at (mach s) tf) = T_PGFLT"
    and "cpu_eflags (mach s) AND FL_IF = 0"
  shows "trap x tf s = Halted (Panic ''Kernel page fault'')
          ((cprintf (fmt_incoming (ext_addr x tf)) s)
             \<lparr>mach := cld (mach s), last_tf := Some tf\<rparr>)"
proof -
  have k: "tf_cs (tf_at (mach s) tf) AND 3 \<noteq> 3"
    using assms(1) by simp
  show ?thesis
    using assms trap_entry_kernel [OF assms(3) k, of x]
    by (simp add: trap_def trap_dispatch_def page_fault_handler_def Let_def T_defs)
qed

subsection \<open>A run of the page-fault path\<close>

text \<open>
  The whole output of \<^verbatim>\<open>trap\<close> for a page fault of environment 1 in user mode,
  at instruction \<open>0x00801234\<close> with fault address \<open>0xDEADBEEF\<close>.
\<close>

lemma sample_user_page_fault_output:
  "printed (trace (final_state
     (trap ext_sample KStack (state_sample (frame_sample T_PGFLT 0x1b))))) =
   [''Incoming TRAP frame at 0xefffffbc\<newline>'',
    ''[00001001] user fault va deadbeef ip 00801234\<newline>'',
    ''TRAP frame at 0xf01c0000\<newline>'',
    ''  edi  0x00000000\<newline>'',
    ''  esi  0x00000000\<newline>'',
    ''  ebp  0xeebfdfd0\<newline>'',
    ''  oesp 0xefffffdc\<newline>'',
    ''  ebx  0x00000000\<newline>'',
    ''  edx  0x0000000a\<newline>'',
    ''  ecx  0x00000014\<newline>'',
    ''  eax  0x00000005\<newline>'',
    ''  es   0x----0023\<newline>'',
    ''  ds   0x----0023\<newline>'',
    ''  trap 0x0000000e Page Fault\<newline>'',
    ''  cr2  0xdeadbeef\<newline>'',
    ''  err  0x00000006'',
    '' [user, write, not-present]\<newline>'',
    ''  eip  0x00801234\<newline>'',
    ''  cs   0x----001b\<newline>'',
    ''  flag 0x00000046\<newline>'',
    ''  esp  0xeebfdfb8\<newline>'',
    ''  ss   0x----0023\<newline>'']"
proof -
  let ?s = "state_sample (frame_sample T_PGFLT 0x1b)"
  have e: "trap_entry ext_sample KStack ?s =
    Inr (EnvTf 1,
         (cprintf (fmt_incoming (ext_addr ext_sample KStack)) ?s)
           \<lparr>mach := set_tf (EnvTf 1) (tf_at (mach ?s) KStack) (cld (mach ?s)),
            last_tf := Some (EnvTf 1)\<rparr>)"
    by (rule trap_entry_user) simp_all
  have r: "reg_edi regs_sample = 0" "reg_esi regs_sample = 0" "reg_ebp regs_sample = 0xEEBFDFD0"
    "reg_oesp regs_sample = 0xEFFFFFDC" "reg_ebx regs_sample = 0" "reg_edx regs_sample = 10"
    "reg_ecx regs_sample = 20" "reg_eax regs_sample = 5"
    by (simp_all add: regs_sample_def)
  have a: "ext_addr ext_sample (EnvTf i) = 0xF01C0000" for i
    by (simp add: ext_sample_def)
  have n: "trapname T_PGFLT = ''Page Fault''"
    by (simp add: trapname_def excnames_def T_PGFLT_def)
  have x: "hex8 0 = ''00000000''" "hex8 0xEEBFDFD0 = ''eebfdfd0''" "hex8 0xEFFFFFDC = ''efffffdc''"
    "hex8 10 = ''0000000a''" "hex8 20 = ''00000014''" "hex8 5 = ''00000005''"
    "hex8 T_PGFLT = ''0000000e''" "hex8 0xDEADBEEF = ''deadbeef''" "hex8 6 = ''00000006''"
    "hex8 0x00801234 = ''00801234''" "hex8 0x46 = ''00000046''" "hex8 0xEEBFDFB8 = ''eebfdfb8''"
    "hex4 0x23 = ''0023''" "hex4 0x1b = ''001b''" "fmt_ptr 0xF01C0000 = ''0xf01c0000''"
    "hex8 0x1001 = ''00001001''"
    by (simp_all add: hex_eval T_PGFLT_def)
  have b: "(6 :: u32) AND 4 \<noteq> 0" "(6 :: u32) AND 2 \<noteq> 0" "(6 :: u32) AND 1 = 0"
    by simp_all
  have d: "trap_dispatch ext_sample (EnvTf 1) s1 = page_fault_handler ext_sample (EnvTf 1) s1"
    if "tf_trapno (tf_at (mach s1) (EnvTf 1)) = T_PGFLT" for s1
    using that by (simp add: trap_dispatch_def T_BRKPT_def T_PGFLT_def)
  let ?s1 = "(cprintf (fmt_incoming (ext_addr ext_sample KStack)) ?s)
           \<lparr>mach := set_tf (EnvTf 1) (tf_at (mach ?s) KStack) (cld (mach ?s)),
            last_tf := Some (EnvTf 1)\<rparr>"
  have f1: "tf_at (mach ?s1) (EnvTf 1) = frame_sample T_PGFLT 0x1b"
    by simp
  have c1: "curenv (mach ?s1) = Some 1" "rcr2 (mach ?s1) = 0xDEADBEEF"
    "env_id (envs (mach ?s1) 1) = 0x1001" "last_tf ?s1 = Some (EnvTf 1)"
    "trace ?s1 = [Cprintf ''Incoming TRAP frame at 0xefffffbc\<newline>'']"
    by (simp_all add: rcr2_def fmt_incoming_sample)
  have pf: "page_fault_handler ext_sample (EnvTf 1) ?s1 =
     Inr (env_destroy ext_sample (Some 1) (print_trapframe ext_sample (EnvTf 1)
        (cprintf ''[00001001] user fault va deadbeef ip 00801234\<newline>'' ?s1)))"
    unfolding page_fault_handler_def Let_def f1 c1
    by (simp add: fmt_user_fault_sample)
  let ?s2 = "cprintf ''[00001001] user fault va deadbeef ip 00801234\<newline>'' ?s1"
  have f2: "tf_at (mach ?s2) (EnvTf 1) = frame_sample T_PGFLT 0x1b"
    "last_tf ?s2 = Some (EnvTf 1)" "rcr2 (mach ?s2) = 0xDEADBEEF"
    using f1 c1 by simp_all
  have pt: "printed (trace (print_trapframe ext_sample (EnvTf 1) ?s2)) =
     printed (trace ?s2) @
   [''TRAP frame at 0xf01c0000\<newline>'',
    ''  edi  0x00000000\<newline>'',
    ''  esi  0x00000000\<newline>'',
    ''  ebp  0xeebfdfd0\<newline>'',
    ''  oesp 0xefffffdc\<newline>'',
    ''  ebx  0x00000000\<newline>'',
    ''  edx  0x0000000a\<newline>'',
    ''  ecx  0x00000014\<newline>'',
    ''  eax  0x00000005\<newline>'',
    ''  es   0x----0023\<newline>'',
    ''  ds   0x----0023\<newline>'',
    ''  trap 0x0000000e Page Fault\<newline>'',
    ''  cr2  0xdeadbeef\<newline>'',
    ''  err  0x00000006'',
    '' [user, write, not-present]\<newline>'',
    ''  eip  0x00801234\<newline>'',
    ''  cs   0x----001b\<newline>'',
    ''  flag 0x00000046\<newline>'',
    ''  esp  0xeebfdfb8\<newline>'',
    ''  ss   0x----0023\<newline>'']"
    unfolding print_trapframe_def print_regs_def Let_def mach_cprintf last_tf_cprintf f2
      sample_frame sample_frame_fields
    by (simp add: b r a n x rcr2_def)
  have t1: "tf_trapno (tf_at (mach ?s1) (EnvTf 1)) = T_PGFLT"
    unfolding f1 by simp
  show ?thesis
    unfolding trap_def e
    using d [OF t1] pf pt c1(5)
    by simp
qed

section \<open>The claims\<close>

subsection \<open>The exception catalog\<close>

lemma length_excnames: "length excnames = 20"
  by (simp add: excnames_def)

lemma neg_not_below: "sint (w :: u32) < 0 \<Longrightarrow> \<not> unat w < 20"
proof
  assume a: "sint w < 0" and b: "unat w < 20"
  from a have "bit w 31" using bit_last_iff [of w] by simp
  then have "bit (unat w) 31" by (simp add: bit_unsigned_iff)
  moreover from b have "unat w < 2 ^ 31" by simp
  ultimately show False
    by (metis bit_take_bit_iff less_irrefl take_bit_nat_eq_self)
qed

text \<open>
  C9. \<^verbatim>\<open>trapname\<close> gives every trap number one name: the entry of the catalog
  for a number below its size 20, "System call" for the syscall vector, and
  "(unknown trap)" for every other number, those above the range and the negative
  ones included.
\<close>

theorem trapname_total:
  "length excnames = 20 \<and>
   (unat trapno < 20 \<longrightarrow> trapname trapno = excnames ! unat trapno) \<and>
   (trapno = T_SYSCALL \<longrightarrow> trapname trapno = ''System call'') \<and>
   (\<not> unat trapno < 20 \<and> trapno \<noteq> T_SYSCALL \<longrightarrow> trapname trapno = ''(unknown trap)'') \<and>
   (sint trapno < 0 \<longrightarrow> trapname trapno = ''(unknown trap)'')"
  using neg_not_below [of trapno]
  by (auto simp: trapname_def length_excnames T_SYSCALL_def)

theorem trapname_total_witness:
  "unat (14 :: u32) < 20 \<and> trapname 14 = ''Page Fault'' \<and>
   trapname T_SYSCALL = ''System call'' \<and>
   \<not> unat (20 :: u32) < 20 \<and> (20 :: u32) \<noteq> T_SYSCALL \<and> trapname 20 = ''(unknown trap)'' \<and>
   sint (0xFFFFFFFF :: u32) < 0 \<and> trapname 0xFFFFFFFF = ''(unknown trap)''"
  using trapname_total [of 14] trapname_total [of T_SYSCALL] trapname_total [of 20]
    trapname_total [of "0xFFFFFFFF"]
  by (simp add: excnames_def T_SYSCALL_def)

subsection \<open>The gates of the table\<close>

lemma length_trap_init [simp]: "length (trap_init idt) = length idt"
  by (simp add: trap_init_def)

lemma trap_init_nth:
  "length idt = 256 \<Longrightarrow> n < 256 \<Longrightarrow>
   trap_init idt ! n =
     (if n = 48 then SETGATE False GD_KT trap_48 3
      else if n = 19 then SETGATE False GD_KT trap_19 0
      else if n = 18 then SETGATE False GD_KT trap_18 0
      else if n = 17 then SETGATE False GD_KT trap_17 0
      else if n = 16 then SETGATE False GD_KT trap_16 0
      else if n = 14 then SETGATE False GD_KT trap_14 0
      else if n = 13 then SETGATE False GD_KT trap_13 0
      else if n = 12 then SETGATE False GD_KT trap_12 0
      else if n = 11 then SETGATE False GD_KT trap_11 0
      else if n = 10 then SETGATE False GD_KT trap_10 0
      else if n = 8 then SETGATE False GD_KT trap_8 0
      else if n = 7 then SETGATE False GD_KT trap_7 0
      else if n = 6 then SETGATE False GD_KT trap_6 0
      else if n = 5 then SETGATE False GD_KT trap_5 0
      else if n = 4 then SETGATE False GD_KT trap_4 0
      else if n = 3 then SETGATE False GD_KT trap_3 3
      else if n = 2 then SETGATE False GD_KT trap_2 0
      else if n = 1 then SETGATE False GD_KT trap_1 0
      else if n = 0 then SETGATE False GD_KT trap_0 0
      else idt ! n)"
  by (simp add: trap_init_def T_defs nth_list_update)

lemma set_trap_vectors:
  "unat ` set trap_vectors = {0, 1, 2, 3, 4, 5, 6, 7, 8, 10, 11, 12, 13, 14, 16, 17, 18, 19, 48}"
  by (simp add: trap_vectors_def T_defs)

lemma distinct_trap_vectors: "distinct (map unat trap_vectors)"
  by (simp add: trap_vectors_def T_defs)

lemma installed_initial: "installed_vectors (trap_init idt_initial) = map unat trap_vectors"
  by code_simp

text \<open>
  C3, as stated, counts 19 numbered exception vectors beside the syscall vector.
  \<^verbatim>\<open>trap_init\<close> installs 18 gates beside the one of the syscall vector: of the
  numbers 0 to 19, the vectors 9 and 15 get no gate.
\<close>

theorem trap_init_exception_gates_count:
  "length (removeAll (unat T_SYSCALL) (installed_vectors (trap_init idt_initial))) = 18 \<and>
   \<not> installed (trap_init idt_initial) 9 \<and> \<not> installed (trap_init idt_initial) 15"
  by code_simp

text \<open>
  C3, amended. The fixed namespace is the 18 exception vectors 0 to 8, 10 to 14
  and 16 to 19 and the syscall vector 48. For each of these 19 numbers
  \<^verbatim>\<open>trap_init\<close> writes one gate: present, an interrupt gate, with the stub of
  that number and the kernel code selector; its privilege level is 3 for the
  breakpoint and the syscall vector and 0 for every other one. No other entry of
  the table is written, so in the table as declared exactly these vectors have a
  gate.
\<close>

theorem trap_init_gates:
  assumes "length idt = 256"
  shows "length trap_vectors = 19 \<and> distinct (map unat trap_vectors) \<and>
     length (trap_init idt) = 256 \<and>
     (\<forall>v \<in> set trap_vectors.
        unat v < 256 \<and> stub_of (unat v) \<noteq> None \<and>
        gd_off (trap_init idt ! unat v) = stub_of (unat v) \<and>
        gd_sel (trap_init idt ! unat v) = GD_KT \<and>
        gd_type (trap_init idt ! unat v) = STS_IG32 \<and>
        gd_p (trap_init idt ! unat v) = 1 \<and>
        gd_dpl (trap_init idt ! unat v) = (if v = T_BRKPT \<or> v = T_SYSCALL then 3 else 0)) \<and>
     (\<forall>n < 256. n \<notin> unat ` set trap_vectors \<longrightarrow> trap_init idt ! n = idt ! n) \<and>
     installed_vectors (trap_init idt_initial) = map unat trap_vectors"
proof -
  have g: "unat v < 256 \<and> stub_of (unat v) \<noteq> None \<and>
        gd_off (trap_init idt ! unat v) = stub_of (unat v) \<and>
        gd_sel (trap_init idt ! unat v) = GD_KT \<and>
        gd_type (trap_init idt ! unat v) = STS_IG32 \<and>
        gd_p (trap_init idt ! unat v) = 1 \<and>
        gd_dpl (trap_init idt ! unat v) = (if v = T_BRKPT \<or> v = T_SYSCALL then 3 else 0)"
    if "v \<in> set trap_vectors" for v
    using that assms
    by (auto simp: trap_vectors_def T_defs trap_init_nth SETGATE_def stub_of_def)
  have o: "trap_init idt ! n = idt ! n" if "n < 256" "n \<notin> unat ` set trap_vectors" for n
    using that assms by (simp add: trap_init_nth set_trap_vectors)
  show ?thesis
    using g o assms distinct_trap_vectors installed_initial
    by (simp add: trap_vectors_def)
qed

theorem trap_init_gates_witness:
  "length idt_initial = 256 \<and> T_BRKPT \<in> set trap_vectors \<and> T_PGFLT \<in> set trap_vectors \<and>
   gd_dpl (trap_init idt_initial ! unat T_BRKPT) = 3 \<and>
   gd_dpl (trap_init idt_initial ! unat T_PGFLT) = 0 \<and>
   gd_off (trap_init idt_initial ! unat T_PGFLT) = Some trap_14 \<and>
   (9 :: nat) < 256 \<and> 9 \<notin> unat ` set trap_vectors \<and>
   trap_init idt_initial ! 9 = gate_zero"
proof -
  have h: "length idt_initial = 256"
    by (simp add: idt_initial_def)
  have b: "T_BRKPT \<in> set trap_vectors" and p: "T_PGFLT \<in> set trap_vectors"
    by (simp_all add: trap_vectors_def)
  have n: "9 \<notin> unat ` set trap_vectors"
    by (simp add: set_trap_vectors)
  have z: "idt_initial ! 9 = gate_zero"
    by (simp add: idt_initial_def)
  have s: "stub_of (unat T_PGFLT) = Some trap_14" "T_PGFLT \<noteq> T_BRKPT" "T_PGFLT \<noteq> T_SYSCALL"
    by (simp_all add: stub_of_def T_defs)
  note t = trap_init_gates [OF h]
  note g = t [THEN conjunct2, THEN conjunct2, THEN conjunct2, THEN conjunct1]
  note o = t [THEN conjunct2, THEN conjunct2, THEN conjunct2, THEN conjunct2, THEN conjunct1]
  from bspec [OF g b] bspec [OF g p] o [rule_format, of 9] n z s h b p show ?thesis
    by simp
qed

subsection \<open>The syscall bridge\<close>

text \<open>
  C5. \<^verbatim>\<open>syscall_handler\<close> reads the number from \<^verbatim>\<open>eax\<close> and the five
  arguments from \<^verbatim>\<open>edx\<close>, \<^verbatim>\<open>ecx\<close>, \<^verbatim>\<open>ebx\<close>, \<^verbatim>\<open>edi\<close>, \<^verbatim>\<open>esi\<close>, calls the
  syscall implementation once with them in this order, and stores the signed
  32-bit result in \<^verbatim>\<open>eax\<close> of the frame. The frame it leaves is the frame the
  implementation left with only \<^verbatim>\<open>eax\<close> replaced, so where the implementation
  leaves the frame alone every other slot has its old value; no other frame is
  written. The dispatcher calls it for the syscall vector and returns.
\<close>

theorem syscall_handler_frame_effect:
  assumes "r = tf_regs (tf_at (mach s) tf)"
    and "ext_syscall x (reg_eax r) (reg_edx r) (reg_ecx r) (reg_ebx r) (reg_edi r) (reg_esi r)
           (mach s) = (ret, m)"
    and "s' = syscall_handler x tf s"
  shows "trace s' =
       trace s @ [Syscall (reg_eax r) (reg_edx r) (reg_ecx r) (reg_ebx r) (reg_edi r) (reg_esi r)] \<and>
     reg_eax (tf_regs (tf_at (mach s') tf)) = ret \<and>
     sint (reg_eax (tf_regs (tf_at (mach s') tf))) = sint ret \<and>
     tf_at (mach s') tf = (tf_at m tf)\<lparr>tf_regs := (tf_regs (tf_at m tf))\<lparr>reg_eax := ret\<rparr>\<rparr> \<and>
     (tf_at m tf = tf_at (mach s) tf \<longrightarrow>
        reg_edi (tf_regs (tf_at (mach s') tf)) = reg_edi r \<and>
        reg_esi (tf_regs (tf_at (mach s') tf)) = reg_esi r \<and>
        reg_ebp (tf_regs (tf_at (mach s') tf)) = reg_ebp r \<and>
        reg_oesp (tf_regs (tf_at (mach s') tf)) = reg_oesp r \<and>
        reg_ebx (tf_regs (tf_at (mach s') tf)) = reg_ebx r \<and>
        reg_edx (tf_regs (tf_at (mach s') tf)) = reg_edx r \<and>
        reg_ecx (tf_regs (tf_at (mach s') tf)) = reg_ecx r \<and>
        tf_at (mach s') tf = (tf_at (mach s) tf)\<lparr>tf_regs := r\<lparr>reg_eax := ret\<rparr>\<rparr>) \<and>
     (\<forall>p. p \<noteq> tf \<longrightarrow> tf_at (mach s') p = tf_at m p) \<and>
     (tf_trapno (tf_at (mach s) tf) = T_SYSCALL \<longrightarrow> trap_dispatch x tf s = Inr s')"
  using assms
  by (simp add: syscall_handler_def Let_def tf_at_set_tf_other trap_dispatch_def T_defs)

theorem syscall_handler_frame_effect_witness:
  "regs_sample = tf_regs (tf_at (mach (state_sample (frame_sample T_SYSCALL 0x1b))) KStack) \<and>
   ext_syscall ext_sample 5 10 20 0 0 0 (mach (state_sample (frame_sample T_SYSCALL 0x1b))) =
     (30, mach (state_sample (frame_sample T_SYSCALL 0x1b))) \<and>
   trace (syscall_handler ext_sample KStack (state_sample (frame_sample T_SYSCALL 0x1b))) =
     [Syscall 5 10 20 0 0 0] \<and>
   tf_at (mach (syscall_handler ext_sample KStack (state_sample (frame_sample T_SYSCALL 0x1b))))
       KStack =
     (frame_sample T_SYSCALL 0x1b)\<lparr>tf_regs := regs_sample\<lparr>reg_eax := 30\<rparr>\<rparr>"
proof -
  let ?s = "state_sample (frame_sample T_SYSCALL 0x1b)"
  have r: "reg_eax regs_sample = 5" "reg_edx regs_sample = 10" "reg_ecx regs_sample = 20"
    "reg_ebx regs_sample = 0" "reg_edi regs_sample = 0" "reg_esi regs_sample = 0"
    by (simp_all add: regs_sample_def)
  have h1: "regs_sample = tf_regs (tf_at (mach ?s) KStack)"
    by simp
  have h2: "ext_syscall ext_sample (reg_eax regs_sample) (reg_edx regs_sample)
      (reg_ecx regs_sample) (reg_ebx regs_sample) (reg_edi regs_sample) (reg_esi regs_sample)
      (mach ?s) = (30, mach ?s)"
    by (simp add: r)
  note t = syscall_handler_frame_effect [OF h1 h2 refl]
  have f: "tf_at (mach ?s) KStack = frame_sample T_SYSCALL 0x1b"
    by simp
  from t [THEN conjunct1] t [THEN conjunct2, THEN conjunct2, THEN conjunct2, THEN conjunct1]
    h1 h2 r f
  show ?thesis
    by simp
qed

subsection \<open>Unhandled traps\<close>

text \<open>
  C1, as stated, takes every frame whose saved code segment indicates kernel
  privilege. The dispatcher tests the saved code segment for equality with the
  kernel code selector. A frame of a divide error with the saved code segment
  \<open>0x10\<close>, whose two privilege bits are 0 as in the frame of a kernel page
  fault, is not taken for a kernel frame: the dispatcher destroys the current
  environment and returns, and \<^verbatim>\<open>trap\<close> reaches \<^verbatim>\<open>env_run\<close>.
\<close>

theorem unhandled_ring0_trap_resumes:
  "tf_trapno (tf_at (mach (state_sample (frame_sample T_DIVIDE 0x10))) KStack) = T_DIVIDE \<and>
   tf_cs (tf_at (mach (state_sample (frame_sample T_DIVIDE 0x10))) KStack) AND 3 = 0 \<and>
   cpu_eflags (mach (state_sample (frame_sample T_DIVIDE 0x10))) AND FL_IF = 0 \<and>
   trap_dispatch ext_sample KStack (state_sample (frame_sample T_DIVIDE 0x10)) =
     Inr (env_destroy ext_sample (Some 1)
            (print_trapframe ext_sample KStack (state_sample (frame_sample T_DIVIDE 0x10)))) \<and>
   resumed (trap ext_sample KStack (state_sample (frame_sample T_DIVIDE 0x10))) = Some 0"
proof -
  let ?s = "state_sample (frame_sample T_DIVIDE 0x10)"
  have n: "tf_trapno (tf_at (mach ?s) KStack) = T_DIVIDE"
    by simp
  have k: "tf_cs (tf_at (mach ?s) KStack) AND 3 = 0"
    by simp
  have i: "cpu_eflags (mach ?s) AND FL_IF = 0"
    by simp
  have u: "tf_cs (tf_at (mach ?s) KStack) AND 3 \<noteq> 3"
    by simp
  have d: "trap_dispatch ext_sample KStack ?s =
     Inr (env_destroy ext_sample (Some 1) (print_trapframe ext_sample KStack ?s))"
    by (simp add: trap_dispatch_def Let_def T_defs GD_KT_def)
  let ?s1 = "(cprintf (fmt_incoming (ext_addr ext_sample KStack)) ?s)
           \<lparr>mach := cld (mach ?s), last_tf := Some KStack\<rparr>"
  have e: "trap_entry ext_sample KStack ?s = Inr (KStack, ?s1)"
    by (rule trap_entry_kernel [OF i u])
  have d1: "trap_dispatch ext_sample KStack ?s1 =
     Inr (env_destroy ext_sample (Some 1) (print_trapframe ext_sample KStack ?s1))"
    by (simp add: trap_dispatch_def Let_def T_defs GD_KT_def)
  let ?s2 = "env_destroy ext_sample (Some 1) (print_trapframe ext_sample KStack ?s1)"
  have t: "trap ext_sample KStack ?s = trap_resume ?s2"
    unfolding trap_def e using d1 by simp
  have c: "curenv (mach ?s2) = Some 0" "env_status (envs (mach ?s2) 0) = ENV_RUNNING"
    by (simp_all add: state_sample_def machine_sample_def)
  have r: "resumed (trap ext_sample KStack ?s) = Some 0"
    unfolding t by (simp add: trap_resume_def c)
  show ?thesis
    by (intro conjI) (rule n, rule k, rule i, rule d, rule r)
qed

text \<open>
  C1, amended. A trap whose number is none of breakpoint, page fault and syscall,
  in a frame whose saved code segment equals the kernel code selector
  \<^verbatim>\<open>GD_KT\<close>, makes the dispatcher print the whole frame, the seventeen lines
  listed below with the eight registers, the segment selectors, the trap number
  and its name, the error code, the instruction pointer, the code segment and
  the flags, and then panic with "unhandled trap in kernel". \<^verbatim>\<open>trap\<close> never
  reaches \<^verbatim>\<open>env_run\<close>: with interrupts off it halts with the line of its entry
  and these lines as its output.
\<close>

theorem unhandled_kernel_trap_halts:
  assumes "tf_trapno (tf_at (mach s) tf) \<notin> {T_BRKPT, T_PGFLT, T_SYSCALL}"
    and "tf_cs (tf_at (mach s) tf) = GD_KT"
    and "f = tf_at (mach s) tf"
    and "lines =
      [''TRAP frame at '' @ fmt_ptr (ext_addr x tf) @ ''\<newline>'',
       ''  edi  0x'' @ hex8 (reg_edi (tf_regs f)) @ ''\<newline>'',
       ''  esi  0x'' @ hex8 (reg_esi (tf_regs f)) @ ''\<newline>'',
       ''  ebp  0x'' @ hex8 (reg_ebp (tf_regs f)) @ ''\<newline>'',
       ''  oesp 0x'' @ hex8 (reg_oesp (tf_regs f)) @ ''\<newline>'',
       ''  ebx  0x'' @ hex8 (reg_ebx (tf_regs f)) @ ''\<newline>'',
       ''  edx  0x'' @ hex8 (reg_edx (tf_regs f)) @ ''\<newline>'',
       ''  ecx  0x'' @ hex8 (reg_ecx (tf_regs f)) @ ''\<newline>'',
       ''  eax  0x'' @ hex8 (reg_eax (tf_regs f)) @ ''\<newline>'',
       ''  es   0x----'' @ hex4 (tf_es f) @ ''\<newline>'',
       ''  ds   0x----'' @ hex4 (tf_ds f) @ ''\<newline>'',
       ''  trap 0x'' @ hex8 (tf_trapno f) @ '' '' @ trapname (tf_trapno f) @ ''\<newline>'',
       ''  err  0x'' @ hex8 (tf_err f),
       ''\<newline>'',
       ''  eip  0x'' @ hex8 (tf_eip f) @ ''\<newline>'',
       ''  cs   0x----'' @ hex4 (tf_cs f) @ ''\<newline>'',
       ''  flag 0x'' @ hex8 (tf_eflags f) @ ''\<newline>'']"
  shows "trap_dispatch x tf s = Inl (Panic ''unhandled trap in kernel'', print_trapframe x tf s) \<and>
     trace (print_trapframe x tf s) = trace s @ map Cprintf lines \<and>
     (\<forall>e s'. trap x tf s \<noteq> EnvRun e s') \<and>
     (cpu_eflags (mach s) AND FL_IF = 0 \<longrightarrow>
        (\<exists>s1. trap_entry x tf s = Inr (tf, s1) \<and>
           trap x tf s = Halted (Panic ''unhandled trap in kernel'') (print_trapframe x tf s1)) \<and>
        trace (final_state (trap x tf s)) =
          trace s @ Cprintf (fmt_incoming (ext_addr x tf)) # map Cprintf lines)"
proof -
  have d: "trap_dispatch x tf s' = Inl (Panic ''unhandled trap in kernel'', print_trapframe x tf s')"
    if "tf_at (mach s') tf = tf_at (mach s) tf" for s'
    using assms(1,2) that by (simp add: trap_dispatch_def Let_def)
  have k: "tf_cs (tf_at (mach s) tf) AND 3 \<noteq> 3"
    using assms(2) by (simp add: GD_KT_def)
  have z: "tf_cs f AND 3 = 0" "tf_trapno f \<noteq> T_PGFLT"
    using assms(1,2,3) by (simp_all add: GD_KT_def)
  have p: "trace (print_trapframe x tf s') = trace s' @ map Cprintf lines"
    if "tf_at (mach s') tf = f" for s'
    using that z unfolding assms(4)
    by (simp add: print_trapframe_def print_regs_def Let_def)
  show ?thesis
  proof (cases "cpu_eflags (mach s) AND FL_IF = 0")
    case True
    define s1 where "s1 = (cprintf (fmt_incoming (ext_addr x tf)) s)
        \<lparr>mach := cld (mach s), last_tf := Some tf\<rparr>"
    have f: "tf_at (mach s1) tf = tf_at (mach s) tf"
      by (simp add: s1_def)
    have t1: "trace s1 = trace s @ [Cprintf (fmt_incoming (ext_addr x tf))]"
      by (simp add: s1_def)
    have e: "trap_entry x tf s = Inr (tf, s1)"
      unfolding s1_def by (rule trap_entry_kernel [OF True k])
    have h: "trap x tf s = Halted (Panic ''unhandled trap in kernel'') (print_trapframe x tf s1)"
      using d [OF f] e by (simp add: trap_def)
    have p1: "trace (print_trapframe x tf s1) =
        trace s @ Cprintf (fmt_incoming (ext_addr x tf)) # map Cprintf lines"
      using p [of s1] f assms(3) t1 by simp
    show ?thesis
      using d [of s] p [of s] assms(3) e h p1 by simp
  next
    case False
    then show ?thesis using d [of s] p [of s] assms(3)
      by (simp add: trap_def trap_entry_assert)
  qed
qed

theorem unhandled_kernel_trap_halts_witness:
  "tf_trapno (tf_at (mach (state_sample (frame_sample T_DIVIDE GD_KT))) KStack)
     \<notin> {T_BRKPT, T_PGFLT, T_SYSCALL} \<and>
   tf_cs (tf_at (mach (state_sample (frame_sample T_DIVIDE GD_KT))) KStack) = GD_KT \<and>
   trap_dispatch ext_sample KStack (state_sample (frame_sample T_DIVIDE GD_KT)) =
     Inl (Panic ''unhandled trap in kernel'',
          print_trapframe ext_sample KStack (state_sample (frame_sample T_DIVIDE GD_KT))) \<and>
   trace (print_trapframe ext_sample KStack (state_sample (frame_sample T_DIVIDE GD_KT))) =
     [Cprintf ''TRAP frame at 0xefffffbc\<newline>'',
      Cprintf ''  edi  0x00000000\<newline>'',
      Cprintf ''  esi  0x00000000\<newline>'',
      Cprintf ''  ebp  0xeebfdfd0\<newline>'',
      Cprintf ''  oesp 0xefffffdc\<newline>'',
      Cprintf ''  ebx  0x00000000\<newline>'',
      Cprintf ''  edx  0x0000000a\<newline>'',
      Cprintf ''  ecx  0x00000014\<newline>'',
      Cprintf ''  eax  0x00000005\<newline>'',
      Cprintf ''  es   0x----0023\<newline>'',
      Cprintf ''  ds   0x----0023\<newline>'',
      Cprintf ''  trap 0x00000000 Divide error\<newline>'',
      Cprintf ''  err  0x00000006'',
      Cprintf ''\<newline>'',
      Cprintf ''  eip  0x00801234\<newline>'',
      Cprintf ''  cs   0x----0008\<newline>'',
      Cprintf ''  flag 0x00000046\<newline>''] \<and>
   resumed (trap ext_sample KStack (state_sample (frame_sample T_DIVIDE GD_KT))) = None"
proof -
  let ?s = "state_sample (frame_sample T_DIVIDE GD_KT)"
  have h1: "tf_trapno (tf_at (mach ?s) KStack) \<notin> {T_BRKPT, T_PGFLT, T_SYSCALL}"
    by (simp add: T_defs)
  have h2: "tf_cs (tf_at (mach ?s) KStack) = GD_KT"
    by simp
  note t = unhandled_kernel_trap_halts [OF h1 h2 refl refl, of ext_sample]
  note n = resumed_None [OF t [THEN conjunct2, THEN conjunct2, THEN conjunct1]]
  have r: "reg_edi regs_sample = 0" "reg_esi regs_sample = 0" "reg_ebp regs_sample = 0xEEBFDFD0"
    "reg_oesp regs_sample = 0xEFFFFFDC" "reg_ebx regs_sample = 0" "reg_edx regs_sample = 10"
    "reg_ecx regs_sample = 20" "reg_eax regs_sample = 5"
    by (simp_all add: regs_sample_def)
  have nm: "trapname T_DIVIDE = ''Divide error''"
    by (simp add: trapname_def excnames_def T_DIVIDE_def)
  have x: "hex8 0 = ''00000000''" "hex8 0xEEBFDFD0 = ''eebfdfd0''" "hex8 0xEFFFFFDC = ''efffffdc''"
    "hex8 10 = ''0000000a''" "hex8 20 = ''00000014''" "hex8 5 = ''00000005''"
    "hex8 T_DIVIDE = ''00000000''" "hex8 6 = ''00000006''"
    "hex8 0x00801234 = ''00801234''" "hex8 0x46 = ''00000046''"
    "hex4 0x23 = ''0023''" "hex4 GD_KT = ''0008''" "fmt_ptr 0xEFFFFFBC = ''0xefffffbc''"
    by (simp_all add: hex_eval T_DIVIDE_def GD_KT_def)
  have p: "trace (print_trapframe ext_sample KStack ?s) =
     [Cprintf ''TRAP frame at 0xefffffbc\<newline>'',
      Cprintf ''  edi  0x00000000\<newline>'',
      Cprintf ''  esi  0x00000000\<newline>'',
      Cprintf ''  ebp  0xeebfdfd0\<newline>'',
      Cprintf ''  oesp 0xefffffdc\<newline>'',
      Cprintf ''  ebx  0x00000000\<newline>'',
      Cprintf ''  edx  0x0000000a\<newline>'',
      Cprintf ''  ecx  0x00000014\<newline>'',
      Cprintf ''  eax  0x00000005\<newline>'',
      Cprintf ''  es   0x----0023\<newline>'',
      Cprintf ''  ds   0x----0023\<newline>'',
      Cprintf ''  trap 0x00000000 Divide error\<newline>'',
      Cprintf ''  err  0x00000006'',
      Cprintf ''\<newline>'',
      Cprintf ''  eip  0x00801234\<newline>'',
      Cprintf ''  cs   0x----0008\<newline>'',
      Cprintf ''  flag 0x00000046\<newline>'']"
    unfolding t [THEN conjunct2, THEN conjunct1] tf_at.simps sample_machine sample_frame
      sample_frame_fields
    by (simp add: r nm x)
  show ?thesis
    by (intro conjI) (rule h1, rule h2, rule t [THEN conjunct1], rule p, rule n)
qed

text \<open>
  C6. A trap from user mode (the two low bits of the saved code segment are 3)
  whose number is none of breakpoint, page fault and syscall makes the dispatcher
  print the frame, call \<^verbatim>\<open>env_destroy\<close> on the current environment as its
  last action, and return without a panic. The top-level entry goes on to its
  resume step, which runs the environment that is then current and running.
\<close>

theorem unhandled_user_trap_destroys:
  assumes "tf_trapno (tf_at (mach s) tf) \<notin> {T_BRKPT, T_PGFLT, T_SYSCALL}"
    and "tf_cs (tf_at (mach s) tf) AND 3 = 3"
  shows "trap_dispatch x tf s = Inr (env_destroy x (curenv (mach s)) (print_trapframe x tf s)) \<and>
     trace (env_destroy x (curenv (mach s)) (print_trapframe x tf s)) =
       trace s @ map Cprintf (frame_lines x tf s) @ [EnvDestroy (curenv (mach s))] \<and>
     (cpu_eflags (mach s) AND FL_IF = 0 \<and> curenv (mach s) = Some e \<longrightarrow>
        (\<exists>s1. trap_entry x tf s = Inr (EnvTf e, s1) \<and>
           trap x tf s = trap_resume (env_destroy x (Some e) (print_trapframe x (EnvTf e) s1)))) \<and>
     (\<forall>s2 e2. curenv (mach s2) = Some e2 \<and> env_status (envs (mach s2) e2) = ENV_RUNNING \<longrightarrow>
        trap_resume s2 = EnvRun e2 s2)"
proof -
  have u: "c \<noteq> GD_KT" if "c AND 3 = 3" for c
    using that by (auto simp: GD_KT_def)
  have d: "trap_dispatch x p s' = Inr (env_destroy x (curenv (mach s')) (print_trapframe x p s'))"
    if "tf_at (mach s') p = tf_at (mach s) tf" for s' p
    using assms that u [OF assms(2)] by (simp add: trap_dispatch_def Let_def)
  have t: "trace (env_destroy x (curenv (mach s)) (print_trapframe x tf s)) =
       trace s @ map Cprintf (frame_lines x tf s) @ [EnvDestroy (curenv (mach s))]"
    by (simp add: trace_print_trapframe)
  have r: "trap_resume s2 = EnvRun e2 s2"
    if "curenv (mach s2) = Some e2 \<and> env_status (envs (mach s2) e2) = ENV_RUNNING" for s2 e2
    using that by (simp add: trap_resume_def)
  have w: "\<exists>s1. trap_entry x tf s = Inr (EnvTf e, s1) \<and>
           trap x tf s = trap_resume (env_destroy x (Some e) (print_trapframe x (EnvTf e) s1))"
    if a: "cpu_eflags (mach s) AND FL_IF = 0" and c: "curenv (mach s) = Some e"
  proof -
    let ?s1 = "(cprintf (fmt_incoming (ext_addr x tf)) s)
           \<lparr>mach := set_tf (EnvTf e) (tf_at (mach s) tf) (cld (mach s)),
            last_tf := Some (EnvTf e)\<rparr>"
    have e1: "trap_entry x tf s = Inr (EnvTf e, ?s1)"
      by (rule trap_entry_user [OF a assms(2) c])
    have f1: "tf_at (mach ?s1) (EnvTf e) = tf_at (mach s) tf"
      by simp
    have c1: "curenv (mach ?s1) = Some e"
      using c by simp
    show ?thesis
      using e1 d [OF f1] c1 by (simp add: trap_def)
  qed
  show ?thesis
    using d [of s tf] t r w by blast
qed

theorem unhandled_user_trap_destroys_witness:
  "tf_trapno (tf_at (mach (state_sample (frame_sample T_GPFLT 0x1b))) KStack)
     \<notin> {T_BRKPT, T_PGFLT, T_SYSCALL} \<and>
   tf_cs (tf_at (mach (state_sample (frame_sample T_GPFLT 0x1b))) KStack) AND 3 = 3 \<and>
   cpu_eflags (mach (state_sample (frame_sample T_GPFLT 0x1b))) AND FL_IF = 0 \<and>
   curenv (mach (state_sample (frame_sample T_GPFLT 0x1b))) = Some 1 \<and>
   trap_dispatch ext_sample KStack (state_sample (frame_sample T_GPFLT 0x1b)) =
     Inr (env_destroy ext_sample (Some 1)
            (print_trapframe ext_sample KStack (state_sample (frame_sample T_GPFLT 0x1b)))) \<and>
   resumed (trap ext_sample KStack (state_sample (frame_sample T_GPFLT 0x1b))) = Some 0"
proof -
  let ?s = "state_sample (frame_sample T_GPFLT 0x1b)"
  have h1: "tf_trapno (tf_at (mach ?s) KStack) \<notin> {T_BRKPT, T_PGFLT, T_SYSCALL}"
    by (simp add: T_defs)
  have h2: "tf_cs (tf_at (mach ?s) KStack) AND 3 = 3"
    by simp
  have h3: "cpu_eflags (mach ?s) AND FL_IF = 0"
    by simp
  have h4: "curenv (mach ?s) = Some 1"
    by simp
  note t = unhandled_user_trap_destroys [OF h1 h2, of ext_sample 1]
  have t1: "trap_dispatch ext_sample KStack ?s =
     Inr (env_destroy ext_sample (Some 1) (print_trapframe ext_sample KStack ?s))"
    using t [THEN conjunct1] h4 by simp
  from t [THEN conjunct2, THEN conjunct2, THEN conjunct1] h3 h4
  obtain s1 where e1: "trap_entry ext_sample KStack ?s = Inr (EnvTf 1, s1)"
    and r1: "trap ext_sample KStack ?s =
       trap_resume (env_destroy ext_sample (Some 1) (print_trapframe ext_sample (EnvTf 1) s1))"
    by blast
  let ?s2 = "env_destroy ext_sample (Some 1) (print_trapframe ext_sample (EnvTf 1) s1)"
  have s1: "s1 = (cprintf (fmt_incoming (ext_addr ext_sample KStack)) ?s)
           \<lparr>mach := set_tf (EnvTf 1) (tf_at (mach ?s) KStack) (cld (mach ?s)),
            last_tf := Some (EnvTf 1)\<rparr>"
    using e1 trap_entry_user [OF h3 h2 h4, of ext_sample] by simp
  have c: "curenv (mach ?s2) = Some 0 \<and> env_status (envs (mach ?s2) 0) = ENV_RUNNING"
    unfolding s1 by (simp add: state_sample_def machine_sample_def)
  have "trap ext_sample KStack ?s = EnvRun 0 ?s2"
    using t [THEN conjunct2, THEN conjunct2, THEN conjunct2, rule_format, OF c] r1 by simp
  then have r: "resumed (trap ext_sample KStack ?s) = Some 0"
    by simp
  show ?thesis
    by (intro conjI) (rule h1, rule h2, rule h3, rule h4, rule t1, rule r)
qed

subsection \<open>The frame of a trap from user mode\<close>

text \<open>
  C2. When a trap arrives from user mode, with interrupts off and a current
  environment (the two assertions of the entry), \<^verbatim>\<open>trap\<close> copies the whole
  frame into \<^verbatim>\<open>env_tf\<close> of the current environment before it dispatches; the
  copy equals the frame at the moment of the trap, nothing else of the
  environments changes, and the dispatcher is called with the pointer to the
  copy. If nothing touches the copy (a breakpoint with a debugger that leaves the
  machine alone), \<^verbatim>\<open>env_run\<close> is reached with the copy equal to the frame of
  the trap.
\<close>

theorem user_trap_frame_copied:
  assumes "cpu_eflags (mach s) AND FL_IF = 0"
    and "tf_cs (tf_at (mach s) tf) AND 3 = 3"
    and "curenv (mach s) = Some e"
  shows "(\<exists>s1. trap_entry x tf s = Inr (EnvTf e, s1) \<and>
       env_tf (envs (mach s1) e) = tf_at (mach s) tf \<and>
       tf_at (mach s1) (EnvTf e) = tf_at (mach s) tf \<and>
       (\<forall>i. i \<noteq> e \<longrightarrow> envs (mach s1) i = envs (mach s) i) \<and>
       env_id (envs (mach s1) e) = env_id (envs (mach s) e) \<and>
       env_status (envs (mach s1) e) = env_status (envs (mach s) e) \<and>
       trap x tf s =
         (case trap_dispatch x (EnvTf e) s1 of
            Inl (h, s2) \<Rightarrow> Halted h s2
          | Inr s2 \<Rightarrow> trap_resume s2)) \<and>
     (tf_trapno (tf_at (mach s) tf) = T_BRKPT \<and> (\<forall>m. ext_monitor x (EnvTf e) m = m) \<and>
      env_status (envs (mach s) e) = ENV_RUNNING \<longrightarrow>
        resumed (trap x tf s) = Some e \<and>
        env_tf (envs (mach (final_state (trap x tf s))) e) = tf_at (mach s) tf)"
  using trap_entry_user [OF assms, of x] assms(3)
  by (simp add: trap_def trap_dispatch_def monitor_def trap_resume_def)

theorem user_trap_frame_copied_witness:
  "cpu_eflags (mach (state_sample (frame_sample T_BRKPT 0x1b))) AND FL_IF = 0 \<and>
   tf_cs (tf_at (mach (state_sample (frame_sample T_BRKPT 0x1b))) KStack) AND 3 = 3 \<and>
   curenv (mach (state_sample (frame_sample T_BRKPT 0x1b))) = Some 1 \<and>
   resumed (trap ext_sample KStack (state_sample (frame_sample T_BRKPT 0x1b))) = Some 1 \<and>
   env_tf (envs (mach (final_state
     (trap ext_sample KStack (state_sample (frame_sample T_BRKPT 0x1b))))) 1) =
     frame_sample T_BRKPT 0x1b"
proof -
  let ?s = "state_sample (frame_sample T_BRKPT 0x1b)"
  have h1: "cpu_eflags (mach ?s) AND FL_IF = 0"
    by simp
  have h2: "tf_cs (tf_at (mach ?s) KStack) AND 3 = 3"
    by simp
  have h3: "curenv (mach ?s) = Some 1"
    by simp
  have p: "tf_trapno (tf_at (mach ?s) KStack) = T_BRKPT \<and>
      (\<forall>m. ext_monitor ext_sample (EnvTf 1) m = m) \<and>
      env_status (envs (mach ?s) 1) = ENV_RUNNING"
    by simp
  have f: "tf_at (mach ?s) KStack = frame_sample T_BRKPT 0x1b"
    by simp
  note t = user_trap_frame_copied [OF h1 h2 h3, of ext_sample, THEN conjunct2, rule_format, OF p]
  show ?thesis
    using t h1 h2 h3 unfolding f by (intro conjI) simp_all
qed

lemma last_tf_page_fault_handler:
  "page_fault_handler x tf s = Inl (h, s') \<or> page_fault_handler x tf s = Inr s' \<Longrightarrow>
   last_tf s' = last_tf s"
  by (auto simp: page_fault_handler_def Let_def split: if_splits option.splits)

lemma last_tf_trap_dispatch:
  "trap_dispatch x tf s = Inl (h, s') \<or> trap_dispatch x tf s = Inr s' \<Longrightarrow>
   last_tf s' = last_tf s"
  using last_tf_page_fault_handler [of x tf s h s']
  by (auto simp: trap_dispatch_def Let_def split: if_splits)

lemma cr2_line_printed:
  "cr2_line (rcr2 (mach s)) \<in> set (frame_lines x p s) \<longleftrightarrow>
   Some p = last_tf s \<and> tf_trapno (tf_at (mach s) p) = T_PGFLT"
  by (simp add: frame_lines_def print_trapframe_def print_regs_def Let_def cr2_line_def)

text \<open>
  C10. After the entry of a trap from user mode, \<^verbatim>\<open>last_tf\<close> is the pointer to
  \<^verbatim>\<open>env_tf\<close> of the current environment, not the pointer to the frame on the
  stack, and it still is when \<^verbatim>\<open>trap\<close> ends. For a page fault the printer shows
  the fault-address register for that pointer and for no other.
\<close>

theorem last_tf_is_persistent_copy:
  assumes "cpu_eflags (mach s) AND FL_IF = 0"
    and "tf_cs (tf_at (mach s) tf) AND 3 = 3"
    and "curenv (mach s) = Some e"
  shows "(\<exists>s1. trap_entry x tf s = Inr (EnvTf e, s1) \<and>
       last_tf s1 = Some (EnvTf e) \<and> last_tf s1 \<noteq> Some KStack \<and>
       (\<forall>p. tf_trapno (tf_at (mach s1) p) = T_PGFLT \<longrightarrow>
          (cr2_line (rcr2 (mach s1)) \<in> set (frame_lines x p s1) \<longleftrightarrow> p = EnvTf e))) \<and>
     last_tf (final_state (trap x tf s)) = Some (EnvTf e) \<and>
     last_tf (final_state (trap x tf s)) \<noteq> Some KStack"
proof -
  let ?s1 = "(cprintf (fmt_incoming (ext_addr x tf)) s)
           \<lparr>mach := set_tf (EnvTf e) (tf_at (mach s) tf) (cld (mach s)),
            last_tf := Some (EnvTf e)\<rparr>"
  have e1: "trap_entry x tf s = Inr (EnvTf e, ?s1)"
    by (rule trap_entry_user [OF assms])
  have l1: "last_tf ?s1 = Some (EnvTf e)"
    by simp
  have fin: "last_tf (final_state (trap x tf s)) = Some (EnvTf e)"
  proof (cases "trap_dispatch x (EnvTf e) ?s1")
    case (Inl a)
    then obtain h s2 where "trap_dispatch x (EnvTf e) ?s1 = Inl (h, s2)"
      by (cases a) simp
    then show ?thesis
      using e1 last_tf_trap_dispatch [of x "EnvTf e" ?s1 h s2] by (simp add: trap_def)
  next
    case (Inr s2)
    then show ?thesis
      using e1 last_tf_trap_dispatch [of x "EnvTf e" ?s1 undefined s2] by (simp add: trap_def)
  qed
  have key: "cr2_line (rcr2 (mach ?s1)) \<in> set (frame_lines x p ?s1) \<longleftrightarrow> p = EnvTf e"
    if "tf_trapno (tf_at (mach ?s1) p) = T_PGFLT" for p
    using that cr2_line_printed [of ?s1 x p] by auto
  have ex: "\<exists>s1. trap_entry x tf s = Inr (EnvTf e, s1) \<and>
       last_tf s1 = Some (EnvTf e) \<and> last_tf s1 \<noteq> Some KStack \<and>
       (\<forall>p. tf_trapno (tf_at (mach s1) p) = T_PGFLT \<longrightarrow>
          (cr2_line (rcr2 (mach s1)) \<in> set (frame_lines x p s1) \<longleftrightarrow> p = EnvTf e))"
    by (intro exI [of _ ?s1] conjI allI impI) (use e1 l1 key in simp_all)
  show ?thesis
    using ex fin by simp
qed

theorem last_tf_is_persistent_copy_witness:
  "cpu_eflags (mach (state_sample (frame_sample T_PGFLT 0x1b))) AND FL_IF = 0 \<and>
   tf_cs (tf_at (mach (state_sample (frame_sample T_PGFLT 0x1b))) KStack) AND 3 = 3 \<and>
   curenv (mach (state_sample (frame_sample T_PGFLT 0x1b))) = Some 1 \<and>
   last_tf (final_state (trap ext_sample KStack (state_sample (frame_sample T_PGFLT 0x1b)))) =
     Some (EnvTf 1)"
proof -
  let ?s = "state_sample (frame_sample T_PGFLT 0x1b)"
  have h1: "cpu_eflags (mach ?s) AND FL_IF = 0"
    by simp
  have h2: "tf_cs (tf_at (mach ?s) KStack) AND 3 = 3"
    by simp
  have h3: "curenv (mach ?s) = Some 1"
    by simp
  note t = last_tf_is_persistent_copy [OF h1 h2 h3, of ext_sample]
  show ?thesis
    by (intro conjI) (rule h1, rule h2, rule h3, rule t [THEN conjunct2, THEN conjunct1])
qed

subsection \<open>Interrupts stay disabled\<close>









subsection \<open>Page faults\<close>



text \<open>
  C4, as stated, has the halt of a kernel page fault come with diagnostics that
  name the environment, the fault address and the instruction pointer. For a page
  fault in kernel mode with fault address \<open>0xDEADBEEF\<close> and instruction
  pointer \<open>0x00801234\<close> the whole output of \<^verbatim>\<open>trap\<close> is the line of its
  entry; it has none of the three.
\<close>

theorem kernel_page_fault_no_diagnostics:
  "tf_trapno (tf_at (mach (state_sample (frame_sample T_PGFLT GD_KT))) KStack) = T_PGFLT \<and>
   tf_cs (tf_at (mach (state_sample (frame_sample T_PGFLT GD_KT))) KStack) AND 3 = 0 \<and>
   rcr2 (mach (state_sample (frame_sample T_PGFLT GD_KT))) = 0xDEADBEEF \<and>
   tf_eip (tf_at (mach (state_sample (frame_sample T_PGFLT GD_KT))) KStack) = 0x00801234 \<and>
   printed (trace (final_state
     (trap ext_sample KStack (state_sample (frame_sample T_PGFLT GD_KT))))) =
     [''Incoming TRAP frame at 0xefffffbc\<newline>'']"
proof -
  let ?s = "state_sample (frame_sample T_PGFLT GD_KT)"
  have k: "tf_cs (tf_at (mach ?s) KStack) AND 3 = 0"
    by (simp add: GD_KT_def)
  have n: "tf_trapno (tf_at (mach ?s) KStack) = T_PGFLT"
    by simp
  have i: "cpu_eflags (mach ?s) AND FL_IF = 0"
    by simp
  have a: "rcr2 (mach ?s) = 0xDEADBEEF"
    by (simp add: rcr2_def)
  have b: "tf_eip (tf_at (mach ?s) KStack) = 0x00801234"
    by simp
  have p: "printed (trace (final_state (trap ext_sample KStack ?s))) =
     [''Incoming TRAP frame at 0xefffffbc\<newline>'']"
    unfolding trap_kernel_page_fault [OF k n i, of ext_sample]
    by (simp add: fmt_incoming_sample)
  show ?thesis
    by (intro conjI) (rule n, rule k, rule a, rule b, rule p)
qed

text \<open>
  C4, amended. For a page fault whose frame has the two low bits of the saved code
  segment 0, \<^verbatim>\<open>page_fault_handler\<close> panics with "Kernel page fault" in the state
  it was called in: it prints nothing, never calls \<^verbatim>\<open>env_destroy\<close> and never
  returns. \<^verbatim>\<open>trap\<close> then halts having printed only the line of its entry.
\<close>

theorem kernel_page_fault_panics:
  assumes "tf_cs (tf_at (mach s) tf) AND 3 = 0"
  shows "page_fault_handler x tf s = Inl (Panic ''Kernel page fault'', s) \<and>
     (tf_trapno (tf_at (mach s) tf) = T_PGFLT \<and> cpu_eflags (mach s) AND FL_IF = 0 \<longrightarrow>
        trap x tf s = Halted (Panic ''Kernel page fault'')
          ((cprintf (fmt_incoming (ext_addr x tf)) s)
             \<lparr>mach := cld (mach s), last_tf := Some tf\<rparr>) \<and>
        resumed (trap x tf s) = None \<and>
        trace (final_state (trap x tf s)) = trace s @ [Cprintf (fmt_incoming (ext_addr x tf))])"
proof -
  have p: "page_fault_handler x tf s = Inl (Panic ''Kernel page fault'', s)"
    using assms by (simp add: page_fault_handler_def Let_def)
  show ?thesis
    using p trap_kernel_page_fault [OF assms, of x] by simp
qed

theorem kernel_page_fault_panics_witness:
  "tf_cs (tf_at (mach (state_sample (frame_sample T_PGFLT GD_KT))) KStack) AND 3 = 0 \<and>
   page_fault_handler ext_sample KStack (state_sample (frame_sample T_PGFLT GD_KT)) =
     Inl (Panic ''Kernel page fault'', state_sample (frame_sample T_PGFLT GD_KT))"
proof -
  have h: "tf_cs (tf_at (mach (state_sample (frame_sample T_PGFLT GD_KT))) KStack) AND 3 = 0"
    by (simp add: GD_KT_def)
  note t = kernel_page_fault_panics [OF h, of ext_sample, THEN conjunct1]
  show ?thesis
    by (intro conjI) (rule h, rule t)
qed

end
